theory Spec2Isabelle
  imports Main "HOL-Library.AList"
begin

section \<open>Python values and keyword arguments\<close>

text \<open>
  The module \<^verbatim>\<open>library/docker_simple.py\<close> hands the options of a task to the class
  \<^verbatim>\<open>Container\<close> as keyword arguments. A value is \<^verbatim>\<open>None\<close>, a string, an integer, a
  boolean, a list or a dict; a dict is an association list in iteration order, a new key
  going to the end.
\<close>

datatype pyval =
    PNone
  | PStr string
  | PInt int
  | PBool bool
  | PList "pyval list"
  | PDict "(string \<times> pyval) list"

type_synonym kwargs = "(string \<times> pyval) list"

text \<open>The exceptions that the code raises or lets through.\<close>

datatype error =
    InvalidArgumentException string
  | TypeError
  | KeyError string
  | ValueError
  | DistutilsFileError
  | IOError
  | CalledProcessError "string list" string

text \<open>Truth value of a Python object, as \<^verbatim>\<open>if value:\<close> tests it.\<close>

fun truthy :: "pyval \<Rightarrow> bool" where
  "truthy PNone = False"
| "truthy (PStr s) = (s \<noteq> [])"
| "truthy (PInt i) = (i \<noteq> 0)"
| "truthy (PBool b) = b"
| "truthy (PList xs) = (xs \<noteq> [])"
| "truthy (PDict d) = (d \<noteq> [])"

text \<open>\<^verbatim>\<open>isinstance(value, list)\<close>\<close>

fun is_list :: "pyval \<Rightarrow> bool" where
  "is_list (PList xs) = True"
| "is_list v = False"

fun list_items :: "pyval \<Rightarrow> pyval list" where
  "list_items (PList xs) = xs"
| "list_items v = []"

text \<open>Decimal numerals, for \<^verbatim>\<open>str\<close> of an integer.\<close>

definition digit_char :: "nat \<Rightarrow> char" where
  "digit_char n = ''0123456789'' ! n"

fun str_of_nat :: "nat \<Rightarrow> string" where
  "str_of_nat n =
     (if n < 10 then [digit_char n] else str_of_nat (n div 10) @ [digit_char (n mod 10)])"

declare str_of_nat.simps [simp del]

definition str_of_int :: "int \<Rightarrow> string" where
  "str_of_int i = (if i < 0 then ''-'' @ str_of_nat (nat (- i)) else str_of_nat (nat i))"

text \<open>
  \<^verbatim>\<open>str(value)\<close>. The string form of a list or a dict is the interpreter's \<^verbatim>\<open>repr\<close>, which
  the module does not define: it is the parameter \<open>rp\<close>.
\<close>

fun py_str :: "(pyval \<Rightarrow> string) \<Rightarrow> pyval \<Rightarrow> string" where
  "py_str rp PNone = ''None''"
| "py_str rp (PStr s) = s"
| "py_str rp (PInt i) = str_of_int i"
| "py_str rp (PBool b) = (if b then ''True'' else ''False'')"
| "py_str rp (PList xs) = rp (PList xs)"
| "py_str rp (PDict d) = rp (PDict d)"

text \<open>\<^verbatim>\<open>' '.join(tokens)\<close>\<close>

fun join_space :: "string list \<Rightarrow> string" where
  "join_space [] = []"
| "join_space [x] = x"
| "join_space (x # y # ys) = x @ '' '' @ join_space (y # ys)"

text \<open>\<^verbatim>\<open>kwargs.pop(key, ...)\<close> leaves the other entries in place.\<close>

definition without :: "string \<Rightarrow> kwargs \<Rightarrow> kwargs" where
  "without key kwargs = filter (\<lambda>kv. fst kv \<noteq> key) kwargs"

section \<open>Command builder\<close>

text \<open>\<^verbatim>\<open>key.replace('_', '-')\<close>\<close>

definition replace_underscores :: "string \<Rightarrow> string" where
  "replace_underscores key = map (\<lambda>c. if c = CHR ''_'' then CHR ''-'' else c) key"

text \<open>
  \<^verbatim>\<open>Container._construct_docker_command\<close>: the outer loop runs over the entries of
  \<open>kwargs\<close>, the inner one over the elements of a list value; each step extends the
  command built so far.
\<close>

definition extend_list_items ::
  "(pyval \<Rightarrow> string) \<Rightarrow> string \<Rightarrow> string list \<Rightarrow> pyval list \<Rightarrow> string list" where
  "extend_list_items rp arg_name command items =
     foldl (\<lambda>cmd list_item. cmd @ [arg_name, py_str rp list_item]) command items"

definition add_argument ::
  "(pyval \<Rightarrow> string) \<Rightarrow> string list \<Rightarrow> string \<times> pyval \<Rightarrow> string list" where
  "add_argument rp command kv =
     (let arg_name = ''--'' @ replace_underscores (fst kv); value = snd kv in
      if is_list value then extend_list_items rp arg_name command (list_items value)
      else if truthy value then command @ [arg_name, py_str rp value]
      else command)"

definition construct_docker_command ::
  "(pyval \<Rightarrow> string) \<Rightarrow> string \<Rightarrow> kwargs \<Rightarrow> string list" where
  "construct_docker_command rp command kwargs =
     foldl (add_argument rp) [''docker'', command] kwargs"

text \<open>
  \<^verbatim>\<open>Container._construct_docker_build_command\<close>. The entry \<^verbatim>\<open>build_args\<close> is popped with an
  empty dict as default and \<^verbatim>\<open>None\<close> is replaced by an empty dict; on any other value that
  is not a dict the assignment \<^verbatim>\<open>build_args['tag'] = image\<close> raises. The dict is then passed
  as keyword arguments beside the positional \<^verbatim>\<open>command\<close>, which raises when it has a key
  of that name.
\<close>

definition popped_build_args :: "kwargs \<Rightarrow> error + kwargs" where
  "popped_build_args kwargs =
     (case map_of kwargs ''build_args'' of
        None \<Rightarrow> Inr []
      | Some PNone \<Rightarrow> Inr []
      | Some (PDict d) \<Rightarrow> Inr d
      | Some v \<Rightarrow> Inl TypeError)"

definition construct_docker_build_command ::
  "(pyval \<Rightarrow> string) \<Rightarrow> string \<Rightarrow> kwargs \<Rightarrow> error + string list" where
  "construct_docker_build_command rp img kwargs =
     (case popped_build_args kwargs of
        Inl e \<Rightarrow> Inl e
      | Inr build_args0 \<Rightarrow>
          (let build_args = AList.update ''tag'' (PStr img) build_args0 in
           if ''command'' \<in> fst ` set build_args then Inl TypeError
           else Inr (construct_docker_command rp ''build'' build_args
                       @ [''--no-cache''] @ [''.''])))"

text \<open>
  The dict popped inside the builder is the caller's own object (the call
  \<^verbatim>\<open>f(image, **kwargs)\<close> copies the mapping, not its values), so the caller's
  \<^verbatim>\<open>kwargs['build_args']\<close> carries the new \<^verbatim>\<open>tag\<close> entry afterwards.
\<close>

definition kwargs_after_build :: "string \<Rightarrow> kwargs \<Rightarrow> kwargs" where
  "kwargs_after_build img kwargs =
     (case map_of kwargs ''build_args'' of
        Some (PDict d) \<Rightarrow>
          AList.update ''build_args'' (PDict (AList.update ''tag'' (PStr img) d)) kwargs
      | _ \<Rightarrow> kwargs)"

text \<open>
  \<^verbatim>\<open>Container._construct_docker_run_command\<close>. \<^verbatim>\<open>kwargs.pop('command')\<close> has no default.
  The result is a list of tokens; the last one is the popped \<^verbatim>\<open>command\<close> value as it
  is, all others are strings.
\<close>

definition construct_docker_run_command ::
  "(pyval \<Rightarrow> string) \<Rightarrow> string \<Rightarrow> kwargs \<Rightarrow> error + pyval list" where
  "construct_docker_run_command rp img kwargs =
     (case map_of kwargs ''command'' of
        None \<Rightarrow> Inl (KeyError ''command'')
      | Some command \<Rightarrow>
          (let run_command =
                 map PStr (construct_docker_command rp ''run'' (without ''command'' kwargs)
                           @ [''-d''] @ [img])
           in Inr (if truthy command then run_command @ [command] else run_command)))"

section \<open>The container object and its surroundings\<close>

text \<open>
  The fields that \<^verbatim>\<open>Container.__init__\<close> sets. After a successful construction the image
  reference is a string and every token of both commands is a string.
\<close>

record container =
  changed :: bool
  change_reason :: "string list"
  name :: string
  image_ref :: string
  path :: "string option"
  is_local_image :: bool
  prev_build_command :: string
  prev_run_command :: string
  build_command :: "string list"
  run_command :: "string list"
  build_command_str :: string
  run_command_str :: string

text \<open>
  The file \<^verbatim>\<open>DOCKER_COMMANDS_PATH + '/' + name\<close> of this container: the directory cannot be
  made, the file cannot be opened in either mode, or the file is absent (\<open>None\<close>) or
  holds some text.
\<close>

datatype storage = MkpathFails | OpenFails | Records "string option"

text \<open>
  A call of \<^verbatim>\<open>exec_command\<close> (that is \<^verbatim>\<open>subprocess.check_output\<close>): the command tokens and
  the working directory, if one is given.
\<close>

type_synonym call = "string list \<times> string option"

text \<open>
  What the module does not define is a parameter: the runtime with a state of its own
  (\<open>Inl\<close> output for a nonzero exit, \<open>Inr\<close> output for exit code 0), the parser
  \<^verbatim>\<open>datetime.strptime(_, "%Y-%m-%dT%H:%M:%S.%f")\<close> (\<open>None\<close> for its \<^verbatim>\<open>ValueError\<close>), the
  directory walk \<^verbatim>\<open>os.walk\<close> with, per directory, its files and their modification
  times, and \<^verbatim>\<open>repr\<close>.
\<close>

record ('r, 't) env =
  docker :: "call \<Rightarrow> 'r \<Rightarrow> (string + string) \<times> 'r"
  strptime :: "string \<Rightarrow> 't option"
  os_walk :: "string \<Rightarrow> (string \<times> (string \<times> 't) list) list"
  py_repr :: "pyval \<Rightarrow> string"

text \<open>The runtime's state and the calls issued so far, in order.\<close>

record 'r world =
  rt :: 'r
  issued :: "call list"

type_synonym ('r, 'a) meth = "container \<times> 'r world \<Rightarrow> (error + 'a) \<times> container \<times> 'r world"

text \<open>Sequencing: an exception ends the method, and what was done before it stays done.\<close>

definition and_then ::
  "('s \<Rightarrow> (error + 'a) \<times> 's) \<Rightarrow> ('a \<Rightarrow> 's \<Rightarrow> (error + 'b) \<times> 's) \<Rightarrow> 's \<Rightarrow> (error + 'b) \<times> 's" where
  "and_then m f s = (case m s of (Inl e, s') \<Rightarrow> (Inl e, s') | (Inr a, s') \<Rightarrow> f a s')"

definition ret :: "'a \<Rightarrow> 's \<Rightarrow> (error + 'a) \<times> 's" where
  "ret a s = (Inr a, s)"

definition append_reason :: "string \<Rightarrow> ('r, unit) meth" where
  "append_reason r s =
     (Inr (), (fst s)\<lparr>change_reason := change_reason (fst s) @ [r]\<rparr>, snd s)"

definition set_changed :: "('r, unit) meth" where
  "set_changed s = (Inr (), (fst s)\<lparr>changed := True\<rparr>, snd s)"

definition exec_command ::
  "('r, 't) env \<Rightarrow> string list \<Rightarrow> string option \<Rightarrow> ('r, string) meth" where
  "exec_command E cmd cwd s =
     (case docker E (cmd, cwd) (rt (snd s)) of
        (out, r') \<Rightarrow>
          ((case out of Inl output \<Rightarrow> Inl (CalledProcessError cmd output) | Inr output \<Rightarrow> Inr output),
           fst s, (snd s)\<lparr>rt := r', issued := issued (snd s) @ [(cmd, cwd)]\<rparr>))"

definition quoted :: "string \<Rightarrow> string" where
  "quoted s = [CHR 0x27] @ s @ [CHR 0x27]"

text \<open>\<^verbatim>\<open>sub in s\<close> on strings\<close>

fun contains :: "string \<Rightarrow> string \<Rightarrow> bool" where
  "contains sub [] = (sub = [])"
| "contains sub (c # cs) = (take (length sub) (c # cs) = sub \<or> contains sub cs)"

section \<open>Construction and finalisation\<close>

text \<open>
  \<^verbatim>\<open>file.readline()\<close> on the record file, which is opened in text mode (\<^verbatim>\<open>'r+'\<close>, \<^verbatim>\<open>'w+'\<close>):
  the line up to and with its ending, and what is left. In the text mode of Python 3 a
  line ends at a line feed, at a carriage return, or at a carriage return followed by a
  line feed, and each of these endings is handed over as one line feed. (The binary-like
  text mode of Python 2 ends a line at a line feed only; the two agree on every text
  without a carriage return.)
\<close>

fun readline :: "string \<Rightarrow> string \<times> string" where
  "readline [] = ([], [])"
| "readline (c # cs) =
     (if c = CHR 0x0A then ([CHR 0x0A], cs)
      else if c = CHR 0x0D then
        ([CHR 0x0A], (case cs of [] \<Rightarrow> [] | d # ds \<Rightarrow> if d = CHR 0x0A then ds else cs))
      else (case readline cs of (line, rest) \<Rightarrow> (c # line, rest)))"

definition strip_newline :: "string \<Rightarrow> string" where
  "strip_newline l = (if l \<noteq> [] \<and> last l = CHR 0x0A then butlast l else l)"

text \<open>
  Lines 119 to 129 of \<^verbatim>\<open>__init__\<close>: the checks on the image reference, which give the
  reference used from then on and \<^verbatim>\<open>is_local_image\<close>. With no image both branches apply a
  string operation to \<^verbatim>\<open>None\<close>. The slice \<^verbatim>\<open>self.image[:-6]\<close> is the reference without its
  last six characters.
\<close>

definition check_image :: "string option \<Rightarrow> string option \<Rightarrow> error + string \<times> bool" where
  "check_image img pth =
     (if pth \<noteq> None \<and> pth \<noteq> Some [] then
        (case img of
           None \<Rightarrow> Inl TypeError
         | Some i \<Rightarrow>
             if CHR '':'' \<in> set i
             then Inl (InvalidArgumentException ''No tags are allowed when building a local image'')
             else Inr (i @ '':local'', True))
      else
        (case img of
           None \<Rightarrow> Inl TypeError
         | Some i \<Rightarrow>
             if take (length i - 6) i = '':local''
             then Inl (InvalidArgumentException
                         (''The '' @ quoted ''local'' @ '' tag is reserved for locally built images''))
             else Inr (i, False)))"

text \<open>
  Lines 135 to 148: the file is opened for reading and writing, created empty when it is
  not there, and its first two lines are read and stripped of their line feed.
\<close>

definition open_prev_commands_file :: "storage \<Rightarrow> pyval \<Rightarrow> error + string" where
  "open_prev_commands_file stor nm =
     (case stor of
        MkpathFails \<Rightarrow> Inl DistutilsFileError
      | OpenFails \<Rightarrow> (case nm of PStr n \<Rightarrow> Inl IOError | _ \<Rightarrow> Inl TypeError)
      | Records f \<Rightarrow>
          (case nm of
             PStr n \<Rightarrow> Inr (case f of None \<Rightarrow> [] | Some text \<Rightarrow> text)
           | _ \<Rightarrow> Inl TypeError))"

definition str_tokens :: "pyval list \<Rightarrow> error + string list" where
  "str_tokens tokens =
     (if \<exists>t \<in> set tokens. \<not> (case t of PStr s \<Rightarrow> True | _ \<Rightarrow> False) then Inl TypeError
      else Inr (map (py_str (\<lambda>v. [])) tokens))"

text \<open>
  \<^verbatim>\<open>Container.__init__\<close>. \<open>img\<close> and \<open>pth\<close> are the values of the entries \<^verbatim>\<open>image\<close> and
  \<^verbatim>\<open>path\<close> (\<open>None\<close> when the entry is absent or null; the argument specification types
  both as strings), \<open>kwargs\<close> the other entries. The result comes with the storage as
  the constructor leaves it.
\<close>

definition Container_init ::
  "(pyval \<Rightarrow> string) \<Rightarrow> string option \<Rightarrow> string option \<Rightarrow> kwargs \<Rightarrow> storage
     \<Rightarrow> (error + container) \<times> storage" where
  "Container_init rp img pth kwargs stor =
     (case map_of kwargs ''name'' of
        None \<Rightarrow> (Inl (KeyError ''name''), stor)
      | Some nm \<Rightarrow>
     (case check_image img pth of
        Inl e \<Rightarrow> (Inl e, stor)
      | Inr (i, is_local) \<Rightarrow>
     (case open_prev_commands_file stor nm of
        Inl e \<Rightarrow> (Inl e, stor)
      | Inr text \<Rightarrow>
     (let stor' = Records (Some text);
          line1 = fst (readline text);
          line2 = fst (readline (snd (readline text)))
      in
     (case construct_docker_build_command rp i kwargs of
        Inl e \<Rightarrow> (Inl e, stor')
      | Inr build_cmd \<Rightarrow>
     (case construct_docker_run_command rp i (kwargs_after_build i kwargs) of
        Inl e \<Rightarrow> (Inl e, stor')
      | Inr run_tokens \<Rightarrow>
     (case str_tokens run_tokens of
        Inl e \<Rightarrow> (Inl e, stor')
      | Inr run_cmd \<Rightarrow>
          (Inr \<lparr> changed = False, change_reason = [],
                 name = py_str rp nm, image_ref = i, path = pth, is_local_image = is_local,
                 prev_build_command = strip_newline line1,
                 prev_run_command = strip_newline line2,
                 build_command = build_cmd, run_command = run_cmd,
                 build_command_str = join_space build_cmd,
                 run_command_str = join_space run_cmd \<rparr>,
           stor'))))))))"

text \<open>
  \<^verbatim>\<open>Container.__del__\<close>: the test is on the two token lists; the file is rewritten from its
  start and cut after the new text.
\<close>

definition Container_del :: "container \<Rightarrow> storage \<Rightarrow> storage" where
  "Container_del self stor =
     (if run_command self \<noteq> [] \<and> build_command self \<noteq> []
      then Records (Some (build_command_str self @ [CHR 0x0A] @ run_command_str self))
      else stor)"

section \<open>Probes and primitive actions\<close>

text \<open>
  \<^verbatim>\<open>Container.running\<close>: \<open>Some True\<close>, \<open>Some False\<close>, or \<open>None\<close> for the Python \<^verbatim>\<open>None\<close>
  that stands for a container that does not exist.
\<close>

definition running :: "('r, 't) env \<Rightarrow> ('r, bool option) meth" where
  \<open>running E s =
     (case exec_command E
             [''docker'', ''inspect'', ''--format'', ''"{{.State.Running}}"'', name (fst s)]
             None s of
        (Inr output, s') \<Rightarrow> (Inr (Some (contains ''true'' output)), s')
      | (Inl e, s') \<Rightarrow> (Inr None, s'))\<close>

text \<open>\<^verbatim>\<open>Container.needs_pull\<close>\<close>

definition needs_pull :: "('r, 't) env \<Rightarrow> ('r, bool) meth" where
  "needs_pull E s =
     (case exec_command E
             [''docker'', ''inspect'', ''--format'', ''{{.ID}}'', image_ref (fst s)] None s of
        (Inr output, s') \<Rightarrow> (Inr (output = []), s')
      | (Inl e, s') \<Rightarrow>
          and_then (append_reason ''Image not found, needs pull'') (\<lambda>_. ret True) s')"

text \<open>
  The two loops at the end of \<^verbatim>\<open>Container.needs_rebuild\<close>: the name of the first file, in
  the order of the walk, that is newer than the image.
\<close>

fun newer_in_directory :: "'t::ord \<Rightarrow> (string \<times> 't) list \<Rightarrow> string option" where
  "newer_in_directory image_creation_time [] = None"
| "newer_in_directory image_creation_time (f # files) =
     (if image_creation_time < snd f then Some (fst f)
      else newer_in_directory image_creation_time files)"

fun newer_in_walk :: "'t::ord \<Rightarrow> (string \<times> (string \<times> 't) list) list \<Rightarrow> string option" where
  "newer_in_walk image_creation_time [] = None"
| "newer_in_walk image_creation_time (d # dirs) =
     (case newer_in_directory image_creation_time (snd d) of
        Some filename \<Rightarrow> Some filename
      | None \<Rightarrow> newer_in_walk image_creation_time dirs)"

text \<open>\<^verbatim>\<open>Container.needs_rebuild\<close>\<close>

definition needs_rebuild :: "('r, 't::ord) env \<Rightarrow> ('r, bool) meth" where
  "needs_rebuild E s =
     (if build_command_str (fst s) \<noteq> prev_build_command (fst s) then
        and_then (append_reason ''Arguments changed for build command'') (\<lambda>_. ret True) s
      else
        (case exec_command E
                [''docker'', ''inspect'', ''--format'', ''{{.Created}}'', image_ref (fst s)]
                None s of
           (Inl e, s') \<Rightarrow>
             and_then (append_reason ''Image not found, needs rebuild'') (\<lambda>_. ret True) s'
         | (Inr time_str, s') \<Rightarrow>
             (case strptime E (take 26 time_str) of
                None \<Rightarrow> (Inl ValueError, s')
              | Some image_creation_time \<Rightarrow>
                  (case path (fst s') of
                     None \<Rightarrow> (Inl TypeError, s')
                   | Some p \<Rightarrow>
                       (case newer_in_walk image_creation_time (os_walk E p) of
                          Some filename \<Rightarrow>
                            and_then (append_reason (''File changed: '' @ filename))
                              (\<lambda>_. ret True) s'
                        | None \<Rightarrow> (Inr False, s'))))))"

text \<open>
  The primitive actions. \<^verbatim>\<open>run\<close>, \<^verbatim>\<open>build\<close> and \<^verbatim>\<open>pull\<close> execute the command first and
  note the reason afterwards; \<^verbatim>\<open>start\<close>, \<^verbatim>\<open>stop\<close>, \<^verbatim>\<open>remove\<close> and \<^verbatim>\<open>restart\<close> note the
  reason first.
\<close>

definition run :: "('r, 't) env \<Rightarrow> ('r, unit) meth" where
  "run E s =
     and_then (exec_command E (run_command (fst s)) None)
       (\<lambda>_. and_then (append_reason (''Executed '' @ quoted ''docker run''))
         (\<lambda>_. set_changed)) s"

definition start :: "('r, 't) env \<Rightarrow> ('r, unit) meth" where
  "start E s =
     and_then (append_reason (''Executed '' @ quoted ''docker start''))
       (\<lambda>_. and_then (exec_command E [''docker'', ''start'', name (fst s)] None)
         (\<lambda>_. set_changed)) s"

definition stop :: "('r, 't) env \<Rightarrow> ('r, unit) meth" where
  "stop E s =
     and_then (append_reason (''Executed '' @ quoted ''docker stop''))
       (\<lambda>_. and_then (exec_command E [''docker'', ''stop'', name (fst s)] None)
         (\<lambda>_. set_changed)) s"

definition remove :: "('r, 't) env \<Rightarrow> ('r, unit) meth" where
  "remove E s =
     and_then (append_reason (''Executed '' @ quoted ''docker rm''))
       (\<lambda>_. and_then (exec_command E [''docker'', ''rm'', name (fst s)] None)
         (\<lambda>_. set_changed)) s"

definition restart :: "('r, 't) env \<Rightarrow> ('r, unit) meth" where
  "restart E s =
     (if changed (fst s) then
        and_then (stop E) (\<lambda>_. and_then (remove E) (\<lambda>_. run E)) s
      else
        and_then (append_reason (''Executed '' @ quoted ''docker restart''))
          (\<lambda>_. and_then (exec_command E [''docker'', ''restart'', name (fst s)] None)
            (\<lambda>_. set_changed)) s)"

definition build :: "('r, 't) env \<Rightarrow> ('r, unit) meth" where
  "build E s =
     and_then (exec_command E (build_command (fst s)) (path (fst s)))
       (\<lambda>_. and_then (append_reason (''Executed '' @ quoted ''docker build''))
         (\<lambda>_. set_changed)) s"

definition pull :: "('r, 't) env \<Rightarrow> ('r, unit) meth" where
  "pull E s =
     and_then (exec_command E [''docker'', ''pull'', image_ref (fst s)] None)
       (\<lambda>_. and_then (append_reason (''Executed '' @ quoted ''docker pull''))
         (\<lambda>_. set_changed)) s"

section \<open>Transitions\<close>

text \<open>\<^verbatim>\<open>Container.ensure_image_is_updated\<close>\<close>

definition ensure_image_is_updated :: "('r, 't::ord) env \<Rightarrow> ('r, unit) meth" where
  "ensure_image_is_updated E s =
     (if is_local_image (fst s) then
        and_then (needs_rebuild E) (\<lambda>b. if b then build E else ret ()) s
      else
        and_then (needs_pull E) (\<lambda>b. if b then pull E else ret ()) s)"

text \<open>The test \<^verbatim>\<open>self.changed or self.run_command_str != self.prev_run_command\<close>.\<close>

definition changed_or_drifted :: "container \<Rightarrow> bool" where
  "changed_or_drifted self =
     (changed self \<or> run_command_str self \<noteq> prev_run_command self)"

text \<open>Lines 184 and 185 of \<^verbatim>\<open>ensure_running\<close>.\<close>

definition note_drift :: "('r, unit) meth" where
  "note_drift s =
     (if run_command_str (fst s) \<noteq> prev_run_command (fst s)
      then append_reason ''Arguments changed for run command'' s
      else ret () s)"

text \<open>Lines 188 to 200 of \<^verbatim>\<open>ensure_running\<close>: what follows the probe.\<close>

definition act_on_running :: "('r, 't) env \<Rightarrow> bool option \<Rightarrow> ('r, unit) meth" where
  "act_on_running E runs s =
     (case runs of
        Some True \<Rightarrow>
          (if changed_or_drifted (fst s)
           then and_then (stop E) (\<lambda>_. and_then (remove E) (\<lambda>_. run E)) s
           else ret () s)
      | None \<Rightarrow> run E s
      | Some False \<Rightarrow>
          (if changed_or_drifted (fst s)
           then and_then (remove E) (\<lambda>_. run E) s
           else start E s))"

text \<open>\<^verbatim>\<open>Container.ensure_running\<close>\<close>

definition ensure_running :: "('r, 't::ord) env \<Rightarrow> ('r, unit) meth" where
  "ensure_running E =
     and_then (ensure_image_is_updated E)
       (\<lambda>_. and_then note_drift
         (\<lambda>_. and_then (running E) (act_on_running E)))"

text \<open>\<^verbatim>\<open>Container.ensure_stopped\<close>: \<^verbatim>\<open>None\<close> is falsy.\<close>

definition ensure_stopped :: "('r, 't) env \<Rightarrow> ('r, unit) meth" where
  "ensure_stopped E =
     and_then (running E) (\<lambda>runs. if runs = Some True then stop E else ret ())"

text \<open>\<^verbatim>\<open>Container.ensure_restarted\<close>\<close>

definition ensure_restarted :: "('r, 't) env \<Rightarrow> ('r, unit) meth" where
  "ensure_restarted E =
     and_then (running E)
       (\<lambda>runs s.
          case runs of
            Some True \<Rightarrow> restart E s
          | None \<Rightarrow> run E s
          | Some False \<Rightarrow>
              (if changed (fst s) then and_then (remove E) (\<lambda>_. run E) s else start E s))"

section \<open>One invocation of the module\<close>

datatype state = Running | Stopped | Restarted

text \<open>
  How the module ends: \<^verbatim>\<open>exit_json\<close> with \<^verbatim>\<open>changed\<close> and \<^verbatim>\<open>change_reason\<close>, or an
  exception (for those that \<^verbatim>\<open>run_module\<close> catches, \<^verbatim>\<open>fail_json\<close> with \<^verbatim>\<open>changed=True\<close>).
\<close>

datatype outcome = Exit bool "string list" | Raised error

text \<open>
  \<^verbatim>\<open>run_module\<close> from the construction of the container on: construction, the transition
  for the state asked for, and the finaliser \<^verbatim>\<open>__del__\<close>, which runs when the constructed
  object is released, whether the transition raised or not. When the constructor raises
  there is no attribute \<^verbatim>\<open>run_command\<close>, and the finaliser ends at its first test.
\<close>

definition ensure_state :: "('r, 't::ord) env \<Rightarrow> state \<Rightarrow> ('r, unit) meth" where
  "ensure_state E st =
     (case st of
        Running \<Rightarrow> ensure_running E
      | Restarted \<Rightarrow> ensure_restarted E
      | Stopped \<Rightarrow> ensure_stopped E)"

definition run_module ::
  "('r, 't::ord) env \<Rightarrow> state \<Rightarrow> string option \<Rightarrow> string option \<Rightarrow> kwargs
     \<Rightarrow> storage \<times> 'r world \<Rightarrow> outcome \<times> storage \<times> 'r world" where
  "run_module E st img pth kwargs sw =
     (case Container_init (py_repr E) img pth kwargs (fst sw) of
        (Inl e, stor') \<Rightarrow> (Raised e, stor', snd sw)
      | (Inr container, stor') \<Rightarrow>
          (case ensure_state E st (container, snd sw) of
             (Inl e, self, w) \<Rightarrow> (Raised e, Container_del self stor', w)
           | (Inr u, self, w) \<Rightarrow>
               (Exit (changed self) (change_reason self), Container_del self stor', w)))"

section \<open>Runtime calls by name\<close>

text \<open>The calls that the methods hand to the runtime, for a given container object.\<close>

datatype action = Build | Pull | Run | Start | Restart | Stop | Remove

fun action_call :: "container \<Rightarrow> action \<Rightarrow> call" where
  "action_call self Build = (build_command self, path self)"
| "action_call self Pull = ([''docker'', ''pull'', image_ref self], None)"
| "action_call self Run = (run_command self, None)"
| "action_call self Start = ([''docker'', ''start'', name self], None)"
| "action_call self Restart = ([''docker'', ''restart'', name self], None)"
| "action_call self Stop = ([''docker'', ''stop'', name self], None)"
| "action_call self Remove = ([''docker'', ''rm'', name self], None)"

definition running_query :: "container \<Rightarrow> call" where
  \<open>running_query self =
     ([''docker'', ''inspect'', ''--format'', ''"{{.State.Running}}"'', name self], None)\<close>

definition created_query :: "container \<Rightarrow> call" where
  "created_query self =
     ([''docker'', ''inspect'', ''--format'', ''{{.Created}}'', image_ref self], None)"

definition id_query :: "container \<Rightarrow> call" where
  "id_query self = ([''docker'', ''inspect'', ''--format'', ''{{.ID}}'', image_ref self], None)"

text \<open>The query of the image-freshness step: by creation time for a local image, by ID otherwise.\<close>

definition image_query :: "container \<Rightarrow> call" where
  "image_query self = (if is_local_image self then created_query self else id_query self)"

text \<open>
  The object as the constructor left it: the methods assign to \<^verbatim>\<open>changed\<close> and
  \<^verbatim>\<open>change_reason\<close> only.
\<close>

definition as_constructed :: "container \<Rightarrow> container" where
  "as_constructed self = self\<lparr>changed := False, change_reason := []\<rparr>"

section \<open>The transition plan as the specification words it\<close>

text \<open>
  Ensure Running, after the image-freshness step and the drift comparison. If running:
  stop, remove, run when the image changed or the run command drifted. If absent: run.
  If present but stopped: remove, run when the image changed or the command drifted,
  otherwise start.
\<close>

fun spec_running_plan :: "bool option \<Rightarrow> bool \<Rightarrow> action list" where
  "spec_running_plan (Some True) changed_or_drift =
     (if changed_or_drift then [Stop, Remove, Run] else [])"
| "spec_running_plan None changed_or_drift = [Run]"
| "spec_running_plan (Some False) changed_or_drift =
     (if changed_or_drift then [Remove, Run] else [Start])"

section \<open>A stand-in runtime for concrete runs\<close>

text \<open>
  One container and one image: the container is absent (\<open>None\<close>) or present and running
  or not; the image is absent or present with the text of its creation time. \<^verbatim>\<open>run\<close> needs
  the name to be free, \<^verbatim>\<open>rm\<close> a stopped container, \<^verbatim>\<open>start\<close>, \<^verbatim>\<open>stop\<close> and \<^verbatim>\<open>restart\<close> an
  existing one; \<^verbatim>\<open>build\<close> and \<^verbatim>\<open>pull\<close> leave an image stamped with a fixed time.
\<close>

record sim =
  sim_container :: "bool option"
  sim_image :: "string option"

definition sim_stamp :: string where
  "sim_stamp = ''2018-03-05T12:00:00.000000000Z''"

definition docker_sim :: "call \<Rightarrow> sim \<Rightarrow> (string + string) \<times> sim" where
  \<open>docker_sim c r =
     (let cmd = fst c in
      if take 4 cmd = [''docker'', ''inspect'', ''--format'', ''"{{.State.Running}}"''] then
        (case sim_container r of
           None \<Rightarrow> (Inl ''Error: No such object'', r)
         | Some up \<Rightarrow> (Inr (if up then ''"true"'' else ''"false"''), r))
      else if take 4 cmd = [''docker'', ''inspect'', ''--format'', ''{{.Created}}''] then
        (case sim_image r of
           None \<Rightarrow> (Inl ''Error: No such object'', r)
         | Some created \<Rightarrow> (Inr created, r))
      else if take 4 cmd = [''docker'', ''inspect'', ''--format'', ''{{.ID}}''] then
        (case sim_image r of
           None \<Rightarrow> (Inl ''Error: No such object'', r)
         | Some created \<Rightarrow> (Inr ''sha256:0'', r))
      else if take 2 cmd = [''docker'', ''run''] then
        (case sim_container r of
           None \<Rightarrow> (Inr ''0'', r\<lparr>sim_container := Some True\<rparr>)
         | Some up \<Rightarrow> (Inl ''Conflict'', r))
      else if take 2 cmd = [''docker'', ''start''] then
        (case sim_container r of
           None \<Rightarrow> (Inl ''Error: No such container'', r)
         | Some up \<Rightarrow> (Inr [], r\<lparr>sim_container := Some True\<rparr>))
      else if take 2 cmd = [''docker'', ''restart''] then
        (case sim_container r of
           None \<Rightarrow> (Inl ''Error: No such container'', r)
         | Some up \<Rightarrow> (Inr [], r\<lparr>sim_container := Some True\<rparr>))
      else if take 2 cmd = [''docker'', ''stop''] then
        (case sim_container r of
           None \<Rightarrow> (Inl ''Error: No such container'', r)
         | Some up \<Rightarrow> (Inr [], r\<lparr>sim_container := Some False\<rparr>))
      else if take 2 cmd = [''docker'', ''rm''] then
        (case sim_container r of
           None \<Rightarrow> (Inl ''Error: No such container'', r)
         | Some up \<Rightarrow>
             if up then (Inl ''Error: container is running'', r)
             else (Inr [], r\<lparr>sim_container := None\<rparr>))
      else if take 2 cmd = [''docker'', ''build''] \<or> take 2 cmd = [''docker'', ''pull''] then
        (Inr [], r\<lparr>sim_image := Some sim_stamp\<rparr>)
      else (Inl ''unknown command'', r))\<close>

text \<open>
  The stand-in for \<^verbatim>\<open>strptime\<close> knows two instants, and the stand-in for the walk one
  directory with the files given to it.
\<close>

definition strptime_sim :: "string \<Rightarrow> nat option" where
  "strptime_sim text =
     map_of [(''2018-03-05T12:00:00.000000'', 20), (''2018-03-04T12:00:00.000000'', 10)] text"

definition env_sim :: "(string \<times> nat) list \<Rightarrow> (sim, nat) env" where
  "env_sim files =
     \<lparr> docker = docker_sim, strptime = strptime_sim,
       os_walk = (\<lambda>p. [(p, files)]), py_repr = (\<lambda>v. ''?'') \<rparr>"

text \<open>
  Two container objects as the constructor returns them for the options \<^verbatim>\<open>name: c\<close>,
  \<^verbatim>\<open>image: foo\<close> and a null \<^verbatim>\<open>command\<close> when there is no record file: without a path, and
  with the path \<^verbatim>\<open>/srv/app\<close>.
\<close>

definition remote_object :: container where
  "remote_object =
     \<lparr> changed = False, change_reason = [], name = ''c'', image_ref = ''foo'', path = None,
       is_local_image = False, prev_build_command = [], prev_run_command = [],
       build_command = [''docker'', ''build'', ''--tag'', ''foo'', ''--no-cache'', ''.''],
       run_command = [''docker'', ''run'', ''--name'', ''c'', ''-d'', ''foo''],
       build_command_str = ''docker build --tag foo --no-cache .'',
       run_command_str = ''docker run --name c -d foo'' \<rparr>"

definition local_object :: container where
  "local_object =
     \<lparr> changed = False, change_reason = [], name = ''c'', image_ref = ''foo:local'',
       path = Some ''/srv/app'', is_local_image = True,
       prev_build_command = [], prev_run_command = [],
       build_command = [''docker'', ''build'', ''--tag'', ''foo:local'', ''--no-cache'', ''.''],
       run_command = [''docker'', ''run'', ''--name'', ''c'', ''-d'', ''foo:local''],
       build_command_str = ''docker build --tag foo:local --no-cache .'',
       run_command_str = ''docker run --name c -d foo:local'' \<rparr>"

section \<open>The serialization rule as the specification words it\<close>

text \<open>
  The flag name is \<open>--\<close> followed by the key with every underscore replaced by a hyphen.
  A list value emits the flag once per element with the element's string form, a truthy
  scalar emits it once with its own string form, a falsy value emits nothing.
\<close>

definition spec_flag_name :: "string \<Rightarrow> string" where
  "spec_flag_name key = ''--'' @ map (\<lambda>c. if c = CHR ''_'' then CHR ''-'' else c) key"

fun spec_emitted :: "(pyval \<Rightarrow> string) \<Rightarrow> string \<times> pyval \<Rightarrow> string list" where
  "spec_emitted rp (key, PList items) =
     concat (map (\<lambda>item. [spec_flag_name key, py_str rp item]) items)"
| "spec_emitted rp (key, value) =
     (if truthy value then [spec_flag_name key, py_str rp value] else [])"

section \<open>Properties of the command builder\<close>

lemma extend_list_items_append:
  "extend_list_items rp a command items =
     command @ concat (map (\<lambda>item. [a, py_str rp item]) items)"
  unfolding extend_list_items_def
  by (induction items arbitrary: command) simp_all

lemma add_argument_spec: "add_argument rp command kv = command @ spec_emitted rp kv"
proof (cases kv)
  case (Pair key v)
  then show ?thesis
    by (cases v)
       (simp_all add: add_argument_def extend_list_items_append spec_flag_name_def
          replace_underscores_def)
qed

lemma foldl_add_argument:
  "foldl (add_argument rp) command kwargs = command @ concat (map (spec_emitted rp) kwargs)"
  by (induction kwargs arbitrary: command) (simp_all add: add_argument_spec)

text \<open>
  Claim C6. The generic serialization yields \<^verbatim>\<open>docker\<close>, the subcommand, and then, pair
  by pair in the iteration order of the mapping, what the specification's rule emits:
  the flag \<open>--key\<close> (underscores as hyphens) once per element of a list value, once for
  a truthy scalar, and nothing for a falsy value.
\<close>

theorem construct_docker_command_serialization:
  "construct_docker_command rp command kwargs =
     [''docker'', command] @ concat (map (spec_emitted rp) kwargs)"
  unfolding construct_docker_command_def by (rule foldl_add_argument)

theorem construct_docker_command_serialization_witness:
  "construct_docker_command (\<lambda>v. ''?'') ''run''
     [(''net_alias'', PStr ''web''), (''publish'', PList [PStr ''80:80'', PInt 443]),
      (''cpu_shares'', PInt 0), (''hostname'', PNone), (''tty'', PStr '''')]
   = [''docker'', ''run'', ''--net-alias'', ''web'', ''--publish'', ''80:80'',
      ''--publish'', ''443'']"
  using construct_docker_command_serialization [of "\<lambda>v. ''?''" "''run''"
    "[(''net_alias'', PStr ''web''), (''publish'', PList [PStr ''80:80'', PInt 443]),
      (''cpu_shares'', PInt 0), (''hostname'', PNone), (''tty'', PStr '''')]"]
  by (simp add: spec_flag_name_def str_of_int_def str_of_nat.simps digit_char_def)

text \<open>
  Claim C10. When the option mapping has no \<^verbatim>\<open>command\<close> key, the construction of the run
  command fails with the lookup error for that key; it returns a token list exactly when
  the key is there, whatever its value (\<^verbatim>\<open>None\<close> included).
\<close>

theorem construct_docker_run_command_needs_command:
  "(''command'' \<notin> fst ` set kwargs \<longrightarrow>
      construct_docker_run_command rp img kwargs = Inl (KeyError ''command''))
   \<and> ((\<exists>tokens. construct_docker_run_command rp img kwargs = Inr tokens)
        \<longleftrightarrow> ''command'' \<in> fst ` set kwargs)"
proof -
  have absent: "map_of kwargs ''command'' = None \<longleftrightarrow> ''command'' \<notin> fst ` set kwargs"
    by (simp add: map_of_eq_None_iff)
  show ?thesis
  proof (cases "map_of kwargs ''command''")
    case None
    with absent show ?thesis by (simp add: construct_docker_run_command_def)
  next
    case (Some v)
    with absent have "''command'' \<in> fst ` set kwargs" by auto
    with Some show ?thesis by (simp add: construct_docker_run_command_def Let_def)
  qed
qed

theorem construct_docker_run_command_needs_command_witness:
  "construct_docker_run_command (\<lambda>v. ''?'') ''foo'' [(''name'', PStr ''c'')]
     = Inl (KeyError ''command'')
   \<and> construct_docker_run_command (\<lambda>v. ''?'') ''foo''
       [(''name'', PStr ''c''), (''command'', PNone)]
     = Inr [PStr ''docker'', PStr ''run'', PStr ''--name'', PStr ''c'', PStr ''-d'',
            PStr ''foo'']"
  using construct_docker_run_command_needs_command
          [of "[(''name'', PStr ''c'')]" "\<lambda>v. ''?''" "''foo''"]
  by (simp add: construct_docker_run_command_def construct_docker_command_def
        add_argument_def without_def replace_underscores_def)

section \<open>Unfolding the model\<close>

lemmas builder_defs =
  construct_docker_build_command_def construct_docker_run_command_def
  construct_docker_command_def add_argument_def extend_list_items_def
  popped_build_args_def kwargs_after_build_def without_def replace_underscores_def
  str_tokens_def

lemmas init_defs =
  Container_init_def check_image_def open_prev_commands_file_def strip_newline_def
  quoted_def Container_del_def

lemmas method_defs =
  and_then_def ret_def append_reason_def set_changed_def exec_command_def
  running_def needs_pull_def needs_rebuild_def run_def start_def stop_def remove_def
  restart_def build_def pull_def ensure_image_is_updated_def changed_or_drifted_def
  note_drift_def act_on_running_def ensure_running_def ensure_stopped_def
  ensure_restarted_def ensure_state_def run_module_def

lemmas sim_defs = docker_sim_def strptime_sim_def env_sim_def sim_stamp_def

section \<open>Construction\<close>

lemma check_image_None: "check_image None pth = Inl TypeError"
  by (simp add: check_image_def)

lemma Container_init_no_image:
  "map_of kwargs ''name'' = Some nm \<Longrightarrow>
   Container_init rp None pth kwargs stor = (Inl TypeError, stor)"
  by (simp add: Container_init_def check_image_None)

text \<open>
  In remote-pull mode the constructor raises the invalid-argument error exactly for the
  references whose part before the last six characters is \<open>:local\<close>, such as
  \<open>:localabcdef\<close>; a reference that ends with \<open>:local\<close> passes unless it has that form too.
\<close>

lemma check_image_remote:
  "check_image (Some i) None =
     (if take (length i - 6) i = '':local''
      then Inl (InvalidArgumentException
                  (''The '' @ quoted ''local'' @ '' tag is reserved for locally built images''))
      else Inr (i, False))"
  by (simp add: check_image_def)

text \<open>
  Claim C3 (the code departs from it). Constructing the container in remote-pull mode
  with the image \<open>foo:local\<close> raises nothing: the constructor returns an object whose
  image reference is \<open>foo:local\<close> and which is not marked as a local image.
\<close>

theorem remote_image_with_local_suffix_is_accepted:
  "Container_init (\<lambda>v. ''?'') (Some ''foo:local'') None
     [(''name'', PStr ''c''), (''command'', PNone)] (Records None)
   = (Inr \<lparr> changed = False, change_reason = [], name = ''c'',
         image_ref = ''foo:local'', path = None, is_local_image = False,
         prev_build_command = [], prev_run_command = [],
         build_command =
           [''docker'', ''build'', ''--tag'', ''foo:local'', ''--no-cache'', ''.''],
         run_command =
           [''docker'', ''run'', ''--name'', ''c'', ''-d'', ''foo:local''],
         build_command_str = ''docker build --tag foo:local --no-cache .'',
         run_command_str = ''docker run --name c -d foo:local''\<rparr>,
      Records (Some []))"
  by (simp add: init_defs builder_defs)

text \<open>
  Claim C5 (the code departs from it). With the state Stopped, no image and a running
  container, the constructor raises a \<^verbatim>\<open>TypeError\<close>: no container object exists, nothing
  is asked of the runtime and the container is not stopped.
\<close>

theorem stopped_without_image_raises:
  "run_module (env_sim []) Stopped None None
     [(''name'', PStr ''c''), (''command'', PNone)]
     (Records None, \<lparr>rt = \<lparr>sim_container = Some True, sim_image = None\<rparr>, issued = []\<rparr>)
   = (Raised TypeError, Records None,
      \<lparr>rt = \<lparr>sim_container = Some True, sim_image = None\<rparr>, issued = []\<rparr>)"
  by (simp add: run_module_def Container_init_no_image)

section \<open>The persisted record\<close>

text \<open>
  Claim C4 (the code departs from it). With the state Stopped, an image given and a
  running container, the module stops the container and then overwrites the persisted
  record \<open>old build / old run\<close> with the two command strings of this invocation.
\<close>

theorem stopped_overwrites_record:
  \<open>run_module (env_sim []) Stopped (Some ''foo'') None
     [(''name'', PStr ''c''), (''command'', PNone)]
     (Records (Some ''old build\<newline>old run''),
      \<lparr>rt = \<lparr>sim_container = Some True, sim_image = None\<rparr>, issued = []\<rparr>)
   = (Exit True [''Executed '' @ quoted ''docker stop''],
      Records (Some ''docker build --tag foo --no-cache .\<newline>docker run --name c -d foo''),
      \<lparr>rt = \<lparr>sim_container = Some False, sim_image = None\<rparr>,
       issued = [([''docker'', ''inspect'', ''--format'', ''"{{.State.Running}}"'', ''c''], None),
                 ([''docker'', ''stop'', ''c''], None)]\<rparr>)\<close>
  by (simp add: init_defs builder_defs method_defs sim_defs)

section \<open>Probes\<close>

lemma newer_in_directory_None:
  "newer_in_directory t files = None \<longleftrightarrow> \<not> (\<exists>f \<in> set files. t < snd f)"
  by (induction files) auto

lemma newer_in_directory_Some:
  "newer_in_directory t files = Some x \<Longrightarrow> \<exists>f \<in> set files. t < snd f"
  by (induction files) (auto split: if_splits)

lemma newer_in_walk_None:
  "newer_in_walk t dirs = None \<longleftrightarrow> \<not> (\<exists>d \<in> set dirs. \<exists>f \<in> set (snd d). t < snd f)"
  by (induction dirs)
     (auto simp: newer_in_directory_None split: option.splits dest: newer_in_directory_Some)

text \<open>
  Claim C8. A failing query is never raised: both probes always return a value. When
  the inspect command of \<^verbatim>\<open>running\<close> exits nonzero, \<^verbatim>\<open>running\<close> returns the value that
  stands for a container that does not exist; when the ID query of \<^verbatim>\<open>needs_pull\<close> exits
  nonzero, or succeeds with empty output, \<^verbatim>\<open>needs_pull\<close> returns true. In each case the
  query is the only call issued.
\<close>

theorem query_failure_is_absence:
  "(docker E (running_query self) (rt w) = (Inl output, r') \<longrightarrow>
      running E (self, w)
        = (Inr None, self, w\<lparr>rt := r', issued := issued w @ [running_query self]\<rparr>))
   \<and> (docker E (id_query self) (rt w) = (Inl output, r') \<longrightarrow>
      needs_pull E (self, w)
        = (Inr True, self\<lparr>change_reason := change_reason self @ [''Image not found, needs pull'']\<rparr>,
           w\<lparr>rt := r', issued := issued w @ [id_query self]\<rparr>))
   \<and> (docker E (id_query self) (rt w) = (Inr [], r') \<longrightarrow>
      needs_pull E (self, w)
        = (Inr True, self, w\<lparr>rt := r', issued := issued w @ [id_query self]\<rparr>))
   \<and> (\<exists>runs s'. running E (self, w) = (Inr runs, s'))
   \<and> (\<exists>b s'. needs_pull E (self, w) = (Inr b, s'))"
  by (auto simp: running_def needs_pull_def exec_command_def running_query_def id_query_def
        and_then_def append_reason_def ret_def split: prod.splits sum.splits)

theorem query_failure_is_absence_witness:
  \<open>running (env_sim [])
      (remote_object, \<lparr>rt = \<lparr>sim_container = None, sim_image = None\<rparr>, issued = []\<rparr>)
    = (Inr None, remote_object,
       \<lparr>rt = \<lparr>sim_container = None, sim_image = None\<rparr>,
        issued = [([''docker'', ''inspect'', ''--format'', ''"{{.State.Running}}"'', ''c''], None)]\<rparr>)
   \<and> needs_pull (env_sim [])
      (remote_object, \<lparr>rt = \<lparr>sim_container = None, sim_image = None\<rparr>, issued = []\<rparr>)
    = (Inr True, remote_object\<lparr>change_reason := [''Image not found, needs pull'']\<rparr>,
       \<lparr>rt = \<lparr>sim_container = None, sim_image = None\<rparr>,
        issued = [([''docker'', ''inspect'', ''--format'', ''{{.ID}}'', ''foo''], None)]\<rparr>)
   \<and> needs_pull ((env_sim []) \<lparr>docker := (\<lambda>c r. (Inr [], r))\<rparr>)
      (remote_object, \<lparr>rt = \<lparr>sim_container = None, sim_image = None\<rparr>, issued = []\<rparr>)
    = (Inr True, remote_object,
       \<lparr>rt = \<lparr>sim_container = None, sim_image = None\<rparr>,
        issued = [([''docker'', ''inspect'', ''--format'', ''{{.ID}}'', ''foo''], None)]\<rparr>)\<close>
  using query_failure_is_absence [of "env_sim []" remote_object
              "\<lparr>rt = \<lparr>sim_container = None, sim_image = None\<rparr>, issued = []\<rparr>"
              "''Error: No such object''" "\<lparr>sim_container = None, sim_image = None\<rparr>"]
        query_failure_is_absence [of "(env_sim []) \<lparr>docker := (\<lambda>c r. (Inr [], r))\<rparr>" remote_object
              "\<lparr>rt = \<lparr>sim_container = None, sim_image = None\<rparr>, issued = []\<rparr>"
              "''Error: No such object''" "\<lparr>sim_container = None, sim_image = None\<rparr>"]
  by (simp add: sim_defs running_query_def id_query_def remote_object_def)

text \<open>
  Claim C7. \<^verbatim>\<open>needs_rebuild\<close> returns true at once, with no call to the runtime, when the
  build-command string differs from the persisted one; otherwise it returns true when
  the query for the creation time fails; otherwise, with the time parsed and the path
  given, it returns true exactly when some file of the walk has a modification time
  strictly later than the creation time.
\<close>

theorem needs_rebuild_decision:
  fixes E :: "('r, 't::ord) env"
  shows
  "(build_command_str self \<noteq> prev_build_command self \<longrightarrow>
      needs_rebuild E (self, w)
        = (Inr True,
           self\<lparr>change_reason := change_reason self @ [''Arguments changed for build command'']\<rparr>,
           w))
   \<and> (build_command_str self = prev_build_command self \<longrightarrow>
        docker E (created_query self) (rt w) = (Inl output, r') \<longrightarrow>
        fst (needs_rebuild E (self, w)) = Inr True)
   \<and> (build_command_str self = prev_build_command self \<longrightarrow>
        docker E (created_query self) (rt w) = (Inr time_str, r') \<longrightarrow>
        strptime E (take 26 time_str) = Some t \<longrightarrow>
        path self = Some p \<longrightarrow>
        fst (needs_rebuild E (self, w))
          = Inr (\<exists>d \<in> set (os_walk E p). \<exists>f \<in> set (snd d). t < snd f))"
proof (intro conjI impI)
  assume "build_command_str self \<noteq> prev_build_command self"
  then show "needs_rebuild E (self, w)
        = (Inr True,
           self\<lparr>change_reason := change_reason self @ [''Arguments changed for build command'']\<rparr>,
           w)"
    by (simp add: needs_rebuild_def and_then_def append_reason_def ret_def)
next
  assume "build_command_str self = prev_build_command self"
    and "docker E (created_query self) (rt w) = (Inl output, r')"
  then show "fst (needs_rebuild E (self, w)) = Inr True"
    by (simp add: needs_rebuild_def exec_command_def created_query_def and_then_def
          append_reason_def ret_def)
next
  assume eq: "build_command_str self = prev_build_command self"
    and q: "docker E (created_query self) (rt w) = (Inr time_str, r')"
    and t: "strptime E (take 26 time_str) = Some t"
    and p: "path self = Some p"
  show "fst (needs_rebuild E (self, w))
          = Inr (\<exists>d \<in> set (os_walk E p). \<exists>f \<in> set (snd d). t < snd f)"
  proof (cases "newer_in_walk t (os_walk E p)")
    case None
    with eq q t p show ?thesis
      using newer_in_walk_None [of t "os_walk E p"]
      by (simp add: needs_rebuild_def exec_command_def created_query_def)
  next
    case (Some filename)
    then have "\<exists>d \<in> set (os_walk E p). \<exists>f \<in> set (snd d). t < snd f"
      using newer_in_walk_None [of t "os_walk E p"] by simp
    with Some eq q t p show ?thesis
      by (simp add: needs_rebuild_def exec_command_def created_query_def and_then_def
            append_reason_def ret_def)
  qed
qed

theorem needs_rebuild_decision_witness:
  "needs_rebuild (env_sim [(''Dockerfile'', 30)])
      (local_object, \<lparr>rt = \<lparr>sim_container = None, sim_image = Some sim_stamp\<rparr>, issued = []\<rparr>)
    = (Inr True, local_object\<lparr>change_reason := [''Arguments changed for build command'']\<rparr>,
       \<lparr>rt = \<lparr>sim_container = None, sim_image = Some sim_stamp\<rparr>, issued = []\<rparr>)
   \<and> fst (needs_rebuild (env_sim [(''Dockerfile'', 10)])
      (local_object\<lparr>prev_build_command := ''docker build --tag foo:local --no-cache .''\<rparr>,
       \<lparr>rt = \<lparr>sim_container = None, sim_image = None\<rparr>, issued = []\<rparr>))
    = Inr True
   \<and> fst (needs_rebuild (env_sim [(''Dockerfile'', 10), (''app.py'', 30)])
      (local_object\<lparr>prev_build_command := ''docker build --tag foo:local --no-cache .''\<rparr>,
       \<lparr>rt = \<lparr>sim_container = None, sim_image = Some sim_stamp\<rparr>, issued = []\<rparr>))
    = Inr True
   \<and> fst (needs_rebuild (env_sim [(''Dockerfile'', 10), (''app.py'', 20)])
      (local_object\<lparr>prev_build_command := ''docker build --tag foo:local --no-cache .''\<rparr>,
       \<lparr>rt = \<lparr>sim_container = None, sim_image = Some sim_stamp\<rparr>, issued = []\<rparr>))
    = Inr False"
  using needs_rebuild_decision [of local_object "env_sim [(''Dockerfile'', 30)]"
              "\<lparr>rt = \<lparr>sim_container = None, sim_image = Some sim_stamp\<rparr>, issued = []\<rparr>"]
        needs_rebuild_decision [of "local_object\<lparr>prev_build_command := ''docker build --tag foo:local --no-cache .''\<rparr>"
              "env_sim [(''Dockerfile'', 10)]"
              "\<lparr>rt = \<lparr>sim_container = None, sim_image = None\<rparr>, issued = []\<rparr>"
              "''Error: No such object''" "\<lparr>sim_container = None, sim_image = None\<rparr>"]
        needs_rebuild_decision [of "local_object\<lparr>prev_build_command := ''docker build --tag foo:local --no-cache .''\<rparr>"
              "env_sim [(''Dockerfile'', 10), (''app.py'', 30)]"
              "\<lparr>rt = \<lparr>sim_container = None, sim_image = Some sim_stamp\<rparr>, issued = []\<rparr>"
              _ "\<lparr>sim_container = None, sim_image = Some sim_stamp\<rparr>" sim_stamp 20 "''/srv/app''"]
        needs_rebuild_decision [of "local_object\<lparr>prev_build_command := ''docker build --tag foo:local --no-cache .''\<rparr>"
              "env_sim [(''Dockerfile'', 10), (''app.py'', 20)]"
              "\<lparr>rt = \<lparr>sim_container = None, sim_image = Some sim_stamp\<rparr>, issued = []\<rparr>"
              _ "\<lparr>sim_container = None, sim_image = Some sim_stamp\<rparr>" sim_stamp 20 "''/srv/app''"]
  by (simp add: sim_defs created_query_def local_object_def)

section \<open>What the actions issue and what they leave alone\<close>

lemma and_then_Inr:
  "and_then m f s = (Inr v, s') \<Longrightarrow> \<exists>a s1. m s = (Inr a, s1) \<and> f a s1 = (Inr v, s')"
  by (auto simp: and_then_def split: prod.splits sum.splits)

lemma action_call_as_constructed: "action_call (as_constructed self) a = action_call self a"
  by (cases a) (simp_all add: as_constructed_def)

lemma same_action_call:
  "as_constructed self' = as_constructed self \<Longrightarrow> action_call self' a = action_call self a"
  by (metis action_call_as_constructed)

lemma run_effect:
  "run E s = (r, s') \<Longrightarrow>
   issued (snd s') = issued (snd s) @ [action_call (fst s) Run]
   \<and> as_constructed (fst s') = as_constructed (fst s)
   \<and> (r = Inr () \<longrightarrow> changed (fst s')) \<and> (changed (fst s) \<longrightarrow> changed (fst s'))"
  by (cases s)
     (auto simp: run_def and_then_def append_reason_def set_changed_def exec_command_def
        as_constructed_def split: prod.splits sum.splits)

lemma start_effect:
  "start E s = (r, s') \<Longrightarrow>
   issued (snd s') = issued (snd s) @ [action_call (fst s) Start]
   \<and> as_constructed (fst s') = as_constructed (fst s)
   \<and> (r = Inr () \<longrightarrow> changed (fst s')) \<and> (changed (fst s) \<longrightarrow> changed (fst s'))"
  by (cases s)
     (auto simp: start_def and_then_def append_reason_def set_changed_def exec_command_def
        as_constructed_def split: prod.splits sum.splits)

lemma stop_effect:
  "stop E s = (r, s') \<Longrightarrow>
   issued (snd s') = issued (snd s) @ [action_call (fst s) Stop]
   \<and> as_constructed (fst s') = as_constructed (fst s)
   \<and> (r = Inr () \<longrightarrow> changed (fst s')) \<and> (changed (fst s) \<longrightarrow> changed (fst s'))"
  by (cases s)
     (auto simp: stop_def and_then_def append_reason_def set_changed_def exec_command_def
        as_constructed_def split: prod.splits sum.splits)

lemma remove_effect:
  "remove E s = (r, s') \<Longrightarrow>
   issued (snd s') = issued (snd s) @ [action_call (fst s) Remove]
   \<and> as_constructed (fst s') = as_constructed (fst s)
   \<and> (r = Inr () \<longrightarrow> changed (fst s')) \<and> (changed (fst s) \<longrightarrow> changed (fst s'))"
  by (cases s)
     (auto simp: remove_def and_then_def append_reason_def set_changed_def exec_command_def
        as_constructed_def split: prod.splits sum.splits)

lemma running_effect:
  "running E s = (r, s') \<Longrightarrow>
   issued (snd s') = issued (snd s) @ [running_query (fst s)] \<and> fst s' = fst s
   \<and> (\<exists>runs. r = Inr runs)"
  by (cases s)
     (auto simp: running_def exec_command_def running_query_def split: prod.splits sum.splits)

lemma note_drift_effect:
  "note_drift s = (r, s') \<Longrightarrow>
   r = Inr () \<and> snd s' = snd s \<and> as_constructed (fst s') = as_constructed (fst s)
   \<and> changed (fst s') = changed (fst s)"
  by (cases s)
     (auto simp: note_drift_def append_reason_def ret_def as_constructed_def split: if_splits)

lemma as_constructed_fields:
  "name (as_constructed s) = name s"
  "image_ref (as_constructed s) = image_ref s"
  "path (as_constructed s) = path s"
  "is_local_image (as_constructed s) = is_local_image s"
  "prev_build_command (as_constructed s) = prev_build_command s"
  "prev_run_command (as_constructed s) = prev_run_command s"
  "build_command (as_constructed s) = build_command s"
  "run_command (as_constructed s) = run_command s"
  "build_command_str (as_constructed s) = build_command_str s"
  "run_command_str (as_constructed s) = run_command_str s"
  by (simp_all add: as_constructed_def)


lemma same_running_query:
  "as_constructed a = as_constructed b \<Longrightarrow> running_query a = running_query b"
  by (metis as_constructed_fields(1) running_query_def)

lemma same_action_calls:
  "as_constructed a = as_constructed b \<Longrightarrow> action_call a = action_call b"
  by (rule ext) (metis action_call_as_constructed)

lemma stop_remove_run_effect:
  assumes "and_then (stop E) (\<lambda>_. and_then (remove E) (\<lambda>_. run E)) s = (r, s')"
  shows "\<exists>k. issued (snd s') = issued (snd s) @ take k (map (action_call (fst s)) [Stop, Remove, Run])
           \<and> (r = Inr () \<longrightarrow> k = 3 \<and> changed (fst s'))
           \<and> as_constructed (fst s') = as_constructed (fst s)"
proof -
  obtain r1 s1 where st: "stop E s = (r1, s1)" by (cases "stop E s") auto
  note e1 = stop_effect [OF st]
  from e1 have same1: "as_constructed (fst s1) = as_constructed (fst s)" by simp
  show ?thesis
  proof (cases r1)
    case (Inl e)
    with st assms have "r = Inl e" "s' = s1" by (simp_all add: and_then_def)
    with e1 show ?thesis by (intro exI [of _ 1]) simp
  next
    case Inr1: (Inr u1)
    obtain r2 s2 where rm: "remove E s1 = (r2, s2)" by (cases "remove E s1") auto
    note e2 = remove_effect [OF rm]
    from e2 same1 have same2: "as_constructed (fst s2) = as_constructed (fst s)" by simp
    have c2: "action_call (fst s1) = action_call (fst s)"
      by (rule same_action_calls [OF same1])
    show ?thesis
    proof (cases r2)
      case (Inl e)
      with rm Inr1 st assms have "r = Inl e" "s' = s2"
        by (simp_all add: and_then_def)
      with e1 e2 c2 show ?thesis by (intro exI [of _ 2]) (simp add: numeral_2_eq_2)
    next
      case Inr2: (Inr u2)
      obtain r3 s3 where run3: "run E s2 = (r3, s3)" by (cases "run E s2") auto
      note e3 = run_effect [OF run3]
      have c3: "action_call (fst s2) = action_call (fst s)"
        by (rule same_action_calls [OF same2])
      from run3 Inr2 rm Inr1 st assms
      have "r = r3" "s' = s3" by (simp_all add: and_then_def)
      with e1 e2 e3 c2 c3 show ?thesis
        by (intro exI [of _ 3]) (simp add: numeral_3_eq_3)
    qed
  qed
qed

lemma remove_run_effect:
  assumes "and_then (remove E) (\<lambda>_. run E) s = (r, s')"
  shows "\<exists>k. issued (snd s') = issued (snd s) @ take k (map (action_call (fst s)) [Remove, Run])
           \<and> (r = Inr () \<longrightarrow> k = 2 \<and> changed (fst s'))
           \<and> as_constructed (fst s') = as_constructed (fst s)"
proof -
  obtain r1 s1 where rm: "remove E s = (r1, s1)" by (cases "remove E s") auto
  note e1 = remove_effect [OF rm]
  from e1 have same1: "as_constructed (fst s1) = as_constructed (fst s)" by simp
  show ?thesis
  proof (cases r1)
    case (Inl e)
    with rm assms have "r = Inl e" "s' = s1" by (simp_all add: and_then_def)
    with e1 show ?thesis by (intro exI [of _ 1]) simp
  next
    case (Inr u1)
    obtain r2 s2 where run2: "run E s1 = (r2, s2)" by (cases "run E s1") auto
    note e2 = run_effect [OF run2]
    have c2: "action_call (fst s1) = action_call (fst s)"
      by (rule same_action_calls [OF same1])
    from run2 Inr rm assms have "r = r2" "s' = s2" by (simp_all add: and_then_def)
    with e1 e2 c2 show ?thesis by (intro exI [of _ 2]) (simp add: numeral_2_eq_2)
  qed
qed

lemma act_on_running_effect:
  assumes "act_on_running E runs s = (r, s')"
  shows "\<exists>k. issued (snd s') = issued (snd s)
                @ take k (map (action_call (fst s))
                            (spec_running_plan runs (changed_or_drifted (fst s))))
           \<and> (r = Inr () \<longrightarrow> k = length (spec_running_plan runs (changed_or_drifted (fst s))))
           \<and> as_constructed (fst s') = as_constructed (fst s)"
proof (cases runs)
  case None
  with assms have "run E s = (r, s')" by (simp add: act_on_running_def)
  from run_effect [OF this] None show ?thesis by (intro exI [of _ 1]) simp
next
  case (Some b)
  show ?thesis
  proof (cases b)
    case True
    show ?thesis
    proof (cases "changed_or_drifted (fst s)")
      case cd: True
      with True Some assms
      have "and_then (stop E) (\<lambda>_. and_then (remove E) (\<lambda>_. run E)) s = (r, s')"
        by (simp add: act_on_running_def)
      from stop_remove_run_effect [OF this] obtain k where
        "issued (snd s') = issued (snd s) @ take k (map (action_call (fst s)) [Stop, Remove, Run])"
        "r = Inr () \<longrightarrow> k = 3 \<and> changed (fst s')"
        "as_constructed (fst s') = as_constructed (fst s)" by blast
      with cd True Some show ?thesis by (intro exI [of _ k]) simp
    next
      case cd: False
      with True Some assms have "r = Inr ()" "s' = s"
        by (simp_all add: act_on_running_def ret_def)
      with cd True Some show ?thesis by simp
    qed
  next
    case False
    show ?thesis
    proof (cases "changed_or_drifted (fst s)")
      case cd: True
      with False Some assms have "and_then (remove E) (\<lambda>_. run E) s = (r, s')"
        by (simp add: act_on_running_def)
      from remove_run_effect [OF this] obtain k where
        "issued (snd s') = issued (snd s) @ take k (map (action_call (fst s)) [Remove, Run])"
        "r = Inr () \<longrightarrow> k = 2 \<and> changed (fst s')"
        "as_constructed (fst s') = as_constructed (fst s)" by blast
      with cd False Some show ?thesis by (intro exI [of _ k]) simp
    next
      case cd: False
      with False Some assms have "start E s = (r, s')" by (simp add: act_on_running_def)
      from start_effect [OF this] cd False Some show ?thesis by (intro exI [of _ 1]) simp
    qed
  qed
qed

lemma remote_object_constructed:
  "Container_init (\<lambda>v. ''?'') (Some ''foo'') None
     [(''name'', PStr ''c''), (''command'', PNone)] (Records None)
   = (Inr remote_object, Records (Some []))"
  by (simp add: init_defs builder_defs remote_object_def)

lemma local_object_constructed:
  "Container_init (\<lambda>v. ''?'') (Some ''foo'') (Some ''/srv/app'')
     [(''name'', PStr ''c''), (''command'', PNone)] (Records None)
   = (Inr local_object, Records (Some []))"
  by (simp add: init_defs builder_defs local_object_def)



section \<open>Ensure Restarted\<close>

lemma restart_effect:
  "restart E s = (r, s') \<Longrightarrow> \<not> changed (fst s) \<Longrightarrow>
   issued (snd s') = issued (snd s) @ [action_call (fst s) Restart]
   \<and> as_constructed (fst s') = as_constructed (fst s)
   \<and> (r = Inr () \<longrightarrow> changed (fst s'))"
  by (cases s)
     (auto simp: restart_def and_then_def append_reason_def set_changed_def exec_command_def
        as_constructed_def split: prod.splits sum.splits)

lemma restart_or_recreate_effect:
  assumes "restart E s = (r, s')"
  shows "\<exists>acts. issued (snd s') = issued (snd s) @ map (action_call (fst s)) acts
           \<and> set acts \<subseteq> {Restart, Stop, Remove, Run, Start}"
proof (cases "changed (fst s)")
  case True
  with assms have "and_then (stop E) (\<lambda>_. and_then (remove E) (\<lambda>_. run E)) s = (r, s')"
    by (simp add: restart_def)
  from stop_remove_run_effect [OF this] obtain k where
    k: "issued (snd s') = issued (snd s) @ take k (map (action_call (fst s)) [Stop, Remove, Run])"
    by blast
  have "set (take k [Stop, Remove, Run]) \<subseteq> {Restart, Stop, Remove, Run, Start}"
    using set_take_subset [of k "[Stop, Remove, Run]"] by auto
  with k show ?thesis
    by (intro exI [of _ "take k [Stop, Remove, Run]"]) (simp only: take_map)
next
  case False
  from restart_effect [OF assms False] show ?thesis
    by (intro exI [of _ "[Restart]"]) simp
qed

lemma ensure_restarted_effect:
  assumes "ensure_restarted E s = (r, s')"
  shows "\<exists>acts. issued (snd s')
                  = issued (snd s) @ running_query (fst s) # map (action_call (fst s)) acts
           \<and> set acts \<subseteq> {Restart, Stop, Remove, Run, Start}"
proof -
  obtain rp s2 where probe: "running E s = (rp, s2)" by (cases "running E s") auto
  note ep = running_effect [OF probe]
  then obtain runs where rp: "rp = Inr runs" by blast
  from ep have same: "fst s2 = fst s"
    and iss: "issued (snd s2) = issued (snd s) @ [running_query (fst s)]" by simp_all
  have step: "(case runs of
          Some True \<Rightarrow> restart E s2
        | None \<Rightarrow> run E s2
        | Some False \<Rightarrow>
            (if changed (fst s2) then and_then (remove E) (\<lambda>_. run E) s2 else start E s2))
        = (r, s')"
    using assms probe rp by (simp add: ensure_restarted_def and_then_def)
  have "\<exists>acts. issued (snd s') = issued (snd s2) @ map (action_call (fst s2)) acts
           \<and> set acts \<subseteq> {Restart, Stop, Remove, Run, Start}"
  proof (cases runs)
    case None
    with step have "run E s2 = (r, s')" by simp
    from run_effect [OF this] show ?thesis by (intro exI [of _ "[Run]"]) simp
  next
    case (Some b)
    show ?thesis
    proof (cases b)
      case True
      with Some step have "restart E s2 = (r, s')" by simp
      then show ?thesis by (rule restart_or_recreate_effect)
    next
      case False
      show ?thesis
      proof (cases "changed (fst s2)")
        case ch: True
        with False Some step have "and_then (remove E) (\<lambda>_. run E) s2 = (r, s')" by simp
        from remove_run_effect [OF this] obtain k where
          k: "issued (snd s') = issued (snd s2) @ take k (map (action_call (fst s2)) [Remove, Run])"
          by blast
        have "set (take k [Remove, Run]) \<subseteq> {Restart, Stop, Remove, Run, Start}"
          using set_take_subset [of k "[Remove, Run]"] by auto
        with k show ?thesis
          by (intro exI [of _ "take k [Remove, Run]"]) (simp only: take_map)
      next
        case ch: False
        with False Some step have "start E s2 = (r, s')" by simp
        from start_effect [OF this] show ?thesis by (intro exI [of _ "[Start]"]) simp
      qed
    qed
  qed
  with same iss show ?thesis by simp
qed

lemma construct_docker_command_Cons:
  "construct_docker_command rp c kw = ''docker'' # c # concat (map (spec_emitted rp) kw)"
  by (simp add: construct_docker_command_def foldl_add_argument)

lemma build_command_take2:
  "construct_docker_build_command rp i kw = Inr b \<Longrightarrow> take 2 b = [''docker'', ''build'']"
  by (auto simp: construct_docker_build_command_def Let_def construct_docker_command_Cons
        split: sum.splits if_splits)

lemma run_command_take2:
  assumes "construct_docker_run_command rp i kw = Inr toks" and "str_tokens toks = Inr rc"
  shows "take 2 rc = [''docker'', ''run'']"
proof -
  from assms(1) obtain rest where "toks = PStr ''docker'' # PStr ''run'' # rest"
    by (auto simp: construct_docker_run_command_def Let_def construct_docker_command_def
          foldl_add_argument split: option.splits if_splits)
  with assms(2) show ?thesis by (auto simp: str_tokens_def split: if_splits)
qed

lemma Container_init_commands:
  assumes "Container_init rp img pth kwargs stor = (Inr self, stor')"
  shows "take 2 (build_command self) = [''docker'', ''build'']
         \<and> take 2 (run_command self) = [''docker'', ''run''] \<and> \<not> changed self
         \<and> change_reason self = []"
  using assms
  by (auto simp: Container_init_def Let_def build_command_take2 run_command_take2
        split: option.splits sum.splits prod.splits)

lemma no_image_step_among:
  assumes "take 2 (build_command self) = [''docker'', ''build'']"
      and "take 2 (run_command self) = [''docker'', ''run'']"
      and "set acts \<subseteq> {Restart, Stop, Remove, Run, Start}"
  shows "action_call self Build \<notin> set (running_query self # map (action_call self) acts)
         \<and> action_call self Pull \<notin> set (running_query self # map (action_call self) acts)
         \<and> image_query self \<notin> set (running_query self # map (action_call self) acts)"
proof -
  have rc: "take 2 x = [''docker'', ''run'']" if "run_command self = x" for x
    using that assms(2) by simp
  have bc: "take 2 x = [''docker'', ''build'']" if "build_command self = x" for x
    using that assms(1) by simp
  have neq: "build_command self \<noteq> run_command self"
    using assms(1,2) by auto
  have each: "action_call self Build \<noteq> action_call self a
              \<and> action_call self Pull \<noteq> action_call self a
              \<and> image_query self \<noteq> action_call self a"
    if "a \<in> {Restart, Stop, Remove, Run, Start}" for a
    using that
    by (cases a)
       (auto simp: neq image_query_def created_query_def id_query_def
          dest: rc bc rc [OF sym] bc [OF sym])
  have probe: "action_call self Build \<noteq> running_query self
               \<and> action_call self Pull \<noteq> running_query self
               \<and> image_query self \<noteq> running_query self"
    by (auto simp: running_query_def image_query_def created_query_def id_query_def dest: bc)
  from each assms(3) probe show ?thesis by auto
qed

text \<open>
  Claim C9. For a constructed container, Ensure Restarted issues the probe and then
  only restart, stop, remove, run or start actions: the build call, the pull call and
  the image query are not among its calls. When the probe reports a running container,
  it issues exactly one restart call after the probe, and the changed flag is set when
  that call succeeds.
\<close>

theorem ensure_restarted_skips_image_step:
  assumes init: "Container_init rp img pth kwargs stor = (Inr self, stor')"
      and fin: "ensure_restarted E (self, w) = (r, s')"
  shows "(\<exists>acts. issued (snd s') = issued w @ running_query self # map (action_call self) acts
                  \<and> set acts \<subseteq> {Restart, Stop, Remove, Run, Start})
         \<and> action_call self Build \<notin> set (drop (length (issued w)) (issued (snd s')))
         \<and> action_call self Pull \<notin> set (drop (length (issued w)) (issued (snd s')))
         \<and> image_query self \<notin> set (drop (length (issued w)) (issued (snd s')))
         \<and> (docker E (running_query self) (rt w) = (Inr out, r') \<longrightarrow> contains ''true'' out \<longrightarrow>
               issued (snd s') = issued w @ [running_query self, action_call self Restart]
               \<and> (r = Inr () \<longrightarrow> changed (fst s')))"
proof -
  note cmds = Container_init_commands [OF init]
  from ensure_restarted_effect [OF fin] obtain acts where
    acts: "issued (snd s') = issued w @ running_query self # map (action_call self) acts"
    and sub: "set acts \<subseteq> {Restart, Stop, Remove, Run, Start}" by auto
  from cmds sub have none:
    "action_call self Build \<notin> set (running_query self # map (action_call self) acts)
     \<and> action_call self Pull \<notin> set (running_query self # map (action_call self) acts)
     \<and> image_query self \<notin> set (running_query self # map (action_call self) acts)"
    by (intro no_image_step_among) simp_all
  have up: "issued (snd s') = issued w @ [running_query self, action_call self Restart]
            \<and> (r = Inr () \<longrightarrow> changed (fst s'))"
    if q: "docker E (running_query self) (rt w) = (Inr out, r')" and t: "contains ''true'' out"
  proof -
    from q t have probe: "running E (self, w)
        = (Inr (Some True), self, w\<lparr>rt := r', issued := issued w @ [running_query self]\<rparr>)"
      by (simp add: running_def exec_command_def running_query_def)
    with fin have "restart E (self, w\<lparr>rt := r', issued := issued w @ [running_query self]\<rparr>)
                     = (r, s')"
      by (simp add: ensure_restarted_def and_then_def)
    from restart_effect [OF this] cmds show ?thesis by simp
  qed
  have ex: "\<exists>acts. issued (snd s') = issued w @ running_query self # map (action_call self) acts
                  \<and> set acts \<subseteq> {Restart, Stop, Remove, Run, Start}"
    using acts sub by blast
  have new: "drop (length (issued w)) (issued (snd s'))
               = running_query self # map (action_call self) acts"
    using acts by simp
  from ex none up show ?thesis unfolding new by blast
qed

theorem ensure_restarted_skips_image_step_witness:
  \<open>ensure_restarted (env_sim [])
      (remote_object, \<lparr>rt = \<lparr>sim_container = Some True, sim_image = None\<rparr>, issued = []\<rparr>)
    = (Inr (),
       remote_object\<lparr>changed := True,
                     change_reason := [''Executed '' @ quoted ''docker restart'']\<rparr>,
       \<lparr>rt = \<lparr>sim_container = Some True, sim_image = None\<rparr>,
        issued = [([''docker'', ''inspect'', ''--format'', ''"{{.State.Running}}"'', ''c''], None),
                  ([''docker'', ''restart'', ''c''], None)]\<rparr>)
    \<and> issued (snd (snd (ensure_restarted (env_sim [])
      (remote_object, \<lparr>rt = \<lparr>sim_container = Some True, sim_image = None\<rparr>, issued = []\<rparr>))))
      = [running_query remote_object, action_call remote_object Restart]\<close>
  using ensure_restarted_skips_image_step [of "\<lambda>v. ''?''" "Some ''foo''" None "[(''name'', PStr ''c''), (''command'', PNone)]"
      "Records None" remote_object "Records (Some [])" "env_sim []"
      "\<lparr>rt = \<lparr>sim_container = Some True, sim_image = None\<rparr>, issued = []\<rparr>"
      "Inr ()"
      "snd (ensure_restarted (env_sim [])
         (remote_object, \<lparr>rt = \<lparr>sim_container = Some True, sim_image = None\<rparr>, issued = []\<rparr>))"
      \<open>''"true"''\<close> "\<lparr>sim_container = Some True, sim_image = None\<rparr>"]
  by (simp add: remote_object_constructed)
     (simp add: method_defs sim_defs remote_object_def running_query_def)

section \<open>Two invocations in a row\<close>

lemma readline_no_line_break:
  "CHR 0x0A \<notin> set b \<Longrightarrow> CHR 0x0D \<notin> set b \<Longrightarrow> readline b = (b, [])"
  by (induction b) auto

lemma readline_first_line:
  "CHR 0x0A \<notin> set b \<Longrightarrow> CHR 0x0D \<notin> set b \<Longrightarrow>
   readline (b @ CHR 0x0A # rest) = (b @ [CHR 0x0A], rest)"
  by (induction b) auto

lemma strip_newline_line: "strip_newline (b @ [CHR 0x0A]) = b"
  by (simp add: strip_newline_def)

lemma strip_newline_no_line_feed: "CHR 0x0A \<notin> set b \<Longrightarrow> strip_newline b = b"
proof -
  assume "CHR 0x0A \<notin> set b"
  with last_in_set [of b] have "\<not> (b \<noteq> [] \<and> last b = CHR 0x0A)" by metis
  then show ?thesis unfolding strip_newline_def by auto
qed

lemma record_round_trip:
  assumes "CHR 0x0A \<notin> set b" and "CHR 0x0D \<notin> set b"
      and "CHR 0x0A \<notin> set r" and "CHR 0x0D \<notin> set r"
  shows "strip_newline (fst (readline (b @ [CHR 0x0A] @ r))) = b"
    and "strip_newline (fst (readline (snd (readline (b @ [CHR 0x0A] @ r))))) = r"
  using assms
  by (simp_all add: readline_first_line readline_no_line_break strip_newline_line
        strip_newline_no_line_feed)

lemma Container_init_again:
  assumes "Container_init rp img pth kwargs stor = (Inr self, stor')"
  shows "Container_init rp img pth kwargs (Records (Some text))
         = (Inr (self\<lparr>prev_build_command := strip_newline (fst (readline text)),
                       prev_run_command :=
                         strip_newline (fst (readline (snd (readline text))))\<rparr>),
            Records (Some text))"
  using assms
  by (auto simp: Container_init_def Let_def open_prev_commands_file_def
        split: option.splits sum.splits prod.splits storage.splits pyval.splits)

lemma ensure_image_is_updated_frame:
  "ensure_image_is_updated E s = (r, s') \<Longrightarrow> as_constructed (fst s') = as_constructed (fst s)"
  by (cases s)
     (auto simp: ensure_image_is_updated_def needs_rebuild_def needs_pull_def build_def
        pull_def and_then_def ret_def append_reason_def set_changed_def exec_command_def
        as_constructed_def split: prod.splits sum.splits option.splits if_splits)


lemma ensure_running_frame:
  fixes E :: "('r, 't::ord) env"
  assumes "ensure_running E s = (r, s')"
  shows "as_constructed (fst s') = as_constructed (fst s)"
proof -
  obtain r1 s1 where img: "ensure_image_is_updated E s = (r1, s1)"
    by (cases "ensure_image_is_updated E s") auto
  note f1 = ensure_image_is_updated_frame [OF img]
  show ?thesis
  proof (cases r1)
    case (Inl e)
    with img assms have "s' = s1" by (simp add: ensure_running_def and_then_def)
    with f1 show ?thesis by simp
  next
    case (Inr u)
    obtain rd d where nd: "note_drift s1 = (rd, d)" by (cases "note_drift s1") auto
    note ed = note_drift_effect [OF nd]
    obtain rp s2 where probe: "running E d = (rp, s2)" by (cases "running E d") auto
    note ep = running_effect [OF probe]
    then obtain runs where rp: "rp = Inr runs" by blast
    from ed have rd: "rd = Inr ()" by simp
    from assms img Inr nd rd probe rp have "act_on_running E runs s2 = (r, s')"
      by (simp add: ensure_running_def and_then_def)
    from act_on_running_effect [OF this]
    have "as_constructed (fst s') = as_constructed (fst s2)" by blast
    with f1 ed ep show ?thesis by simp
  qed
qed

lemma settled_ensure_running:
  fixes E :: "('r, 't::ord) env"
  assumes unchanged: "\<not> changed self"
      and build_same: "build_command_str self = prev_build_command self"
      and run_same: "run_command_str self = prev_run_command self"
      and image: "docker E (image_query self) (rt w) = (Inr out1, r2)"
      and fresh: "if is_local_image self
                  then \<exists>t p. strptime E (take 26 out1) = Some t \<and> path self = Some p
                         \<and> newer_in_walk t (os_walk E p) = None
                  else out1 \<noteq> []"
      and up: "docker E (running_query self) r2 = (Inr out2, r3)"
      and true: "contains ''true'' out2"
  shows "ensure_running E (self, w)
         = (Inr (), self,
            w\<lparr>rt := r3, issued := issued w @ [image_query self, running_query self]\<rparr>)"
proof -
  let ?w1 = "w\<lparr>rt := r2, issued := issued w @ [image_query self]\<rparr>"
  have img: "ensure_image_is_updated E (self, w) = (Inr (), self, ?w1)"
  proof (cases "is_local_image self")
    case True
    with fresh obtain t p where "strptime E (take 26 out1) = Some t" "path self = Some p"
      "newer_in_walk t (os_walk E p) = None" by auto
    with True image build_same show ?thesis
      by (simp add: ensure_image_is_updated_def needs_rebuild_def exec_command_def
            and_then_def ret_def image_query_def created_query_def)
  next
    case False
    with fresh image show ?thesis
      by (simp add: ensure_image_is_updated_def needs_pull_def exec_command_def
            and_then_def ret_def image_query_def id_query_def)
  qed
  have drift: "note_drift (self, ?w1) = (Inr (), self, ?w1)"
    using run_same by (simp add: note_drift_def ret_def)
  have probe: "running E (self, ?w1)
      = (Inr (Some True), self,
         w\<lparr>rt := r3, issued := issued w @ [image_query self, running_query self]\<rparr>)"
    using up true by (simp add: running_def exec_command_def running_query_def)
  have act: "act_on_running E (Some True) (self, w') = (Inr (), self, w')" for w'
    using unchanged run_same by (simp add: act_on_running_def changed_or_drifted_def ret_def)
  show ?thesis
    by (simp add: ensure_running_def and_then_def img drift probe act)
qed

lemma Container_del_constructed:
  assumes "take 2 (build_command self) = [''docker'', ''build'']"
      and "take 2 (run_command self) = [''docker'', ''run'']"
  shows "Container_del self stor
         = Records (Some (build_command_str self @ [CHR 0x0A] @ run_command_str self))"
  using assms by (auto simp: Container_del_def)

text \<open>
  The record round-trips when neither command string holds a line feed or a carriage
  return. Then, after a first invocation with the state Running that exits normally, a
  second one with the same options finds no drift: if the runtime shows the image up to
  date and the container running, it issues the two queries and no action, exits with
  \<^verbatim>\<open>changed\<close> false, and leaves the record as it was.
\<close>

lemma second_invocation_without_line_breaks:
  fixes E :: "('r, 't::ord) env"
  assumes first: "run_module E Running img pth kwargs (stor, w) = (Exit c reasons, stor1, w1)"
      and init: "Container_init (py_repr E) img pth kwargs stor = (Inr self, stor0)"
      and build_lf: "CHR 0x0A \<notin> set (build_command_str self)"
      and build_cr: "CHR 0x0D \<notin> set (build_command_str self)"
      and run_lf: "CHR 0x0A \<notin> set (run_command_str self)"
      and run_cr: "CHR 0x0D \<notin> set (run_command_str self)"
      and image: "docker E (image_query self) (rt w1) = (Inr out1, r2)"
      and fresh: "if is_local_image self
                  then \<exists>t p. strptime E (take 26 out1) = Some t \<and> path self = Some p
                         \<and> newer_in_walk t (os_walk E p) = None
                  else out1 \<noteq> []"
      and up: "docker E (running_query self) r2 = (Inr out2, r3)"
      and true: "contains ''true'' out2"
  shows "run_module E Running img pth kwargs (stor1, w1)
         = (Exit False [], stor1,
            w1\<lparr>rt := r3, issued := issued w1 @ [image_query self, running_query self]\<rparr>)"
proof -
  note cmds = Container_init_commands [OF init]
  obtain r1 self1 w1' where run1: "ensure_running E (self, w) = (r1, self1, w1')"
    by (cases "ensure_running E (self, w)") auto
  from first init run1 have w1': "w1' = w1" and stor1: "stor1 = Container_del self1 stor0"
    by (auto simp: run_module_def ensure_state_def split: sum.splits)
  from ensure_running_frame [OF run1]
  have same: "as_constructed self1 = as_constructed self" by simp
  have fields1: "build_command self1 = build_command self" "run_command self1 = run_command self"
    "build_command_str self1 = build_command_str self"
    "run_command_str self1 = run_command_str self"
    using same by (metis as_constructed_fields)+
  let ?text = "build_command_str self @ [CHR 0x0A] @ run_command_str self"
  have stor1': "stor1 = Records (Some ?text)"
    using stor1 cmds fields1 by (simp add: Container_del_constructed)
  let ?self2 = "self\<lparr>prev_build_command := build_command_str self,
                       prev_run_command := run_command_str self\<rparr>"
  have init2: "Container_init (py_repr E) img pth kwargs stor1 = (Inr ?self2, stor1)"
    unfolding stor1'
    using Container_init_again [OF init, of ?text] record_round_trip [OF build_lf build_cr run_lf run_cr]
    by simp
  have q: "image_query ?self2 = image_query self" "running_query ?self2 = running_query self"
    by (simp_all add: image_query_def created_query_def id_query_def running_query_def)
  have run2: "ensure_running E (?self2, w1)
         = (Inr (), ?self2,
            w1\<lparr>rt := r3, issued := issued w1 @ [image_query ?self2, running_query ?self2]\<rparr>)"
  proof (rule settled_ensure_running [OF _ _ _ _ _ _ true])
    show "\<not> changed ?self2" using cmds by simp
    show "build_command_str ?self2 = prev_build_command ?self2" by simp
    show "run_command_str ?self2 = prev_run_command ?self2" by simp
    show "docker E (image_query ?self2) (rt w1) = (Inr out1, r2)" using image q by simp
    show "if is_local_image ?self2
          then \<exists>t p. strptime E (take 26 out1) = Some t \<and> path ?self2 = Some p
                 \<and> newer_in_walk t (os_walk E p) = None
          else out1 \<noteq> []"
      using fresh by (auto split: if_splits)
    show "docker E (running_query ?self2) r2 = (Inr out2, r3)" using up q by simp
  qed
  have del2: "Container_del ?self2 stor1 = stor1"
    using cmds unfolding stor1' by (simp add: Container_del_constructed)
  from cmds show ?thesis
    by (simp add: run_module_def ensure_state_def init2 run2 del2 q)
qed

text \<open>
  Claim C1 (the code departs from it). With an option value that holds a line feed, here
  the environment entry \<open>MSG=a\<newline>b\<close>, the first invocation with the state Running starts
  the container and writes the record. The second invocation, with the same options, on
  the storage and the runtime as the first left them, reads back only the part of the run
  command before the line feed, notes \<open>Arguments changed for run command\<close> although
  nothing changed, and stops, removes and runs the container again, with \<^verbatim>\<open>changed\<close> true.
\<close>

theorem second_invocation_recreates_after_line_feed:
  \<open>run_module (env_sim []) Running (Some ''foo'') None
     [(''name'', PStr ''c''), (''command'', PNone), (''env'', PList [PStr ''MSG=a\<newline>b''])]
     (Records None, \<lparr>rt = \<lparr>sim_container = None, sim_image = Some sim_stamp\<rparr>, issued = []\<rparr>)
   = (Exit True [''Arguments changed for run command'', ''Executed '' @ quoted ''docker run''],
      Records (Some
        ''docker build --tag foo --no-cache .\<newline>docker run --name c --env MSG=a\<newline>b -d foo''),
      \<lparr>rt = \<lparr>sim_container = Some True, sim_image = Some sim_stamp\<rparr>,
       issued =
         [([''docker'', ''inspect'', ''--format'', ''{{.ID}}'', ''foo''], None),
          ([''docker'', ''inspect'', ''--format'', ''"{{.State.Running}}"'', ''c''], None),
          ([''docker'', ''run'', ''--name'', ''c'', ''--env'', ''MSG=a\<newline>b'', ''-d'', ''foo''],
           None)]\<rparr>)
   \<and> run_module (env_sim []) Running (Some ''foo'') None
     [(''name'', PStr ''c''), (''command'', PNone), (''env'', PList [PStr ''MSG=a\<newline>b''])]
     (Records (Some
        ''docker build --tag foo --no-cache .\<newline>docker run --name c --env MSG=a\<newline>b -d foo''),
      \<lparr>rt = \<lparr>sim_container = Some True, sim_image = Some sim_stamp\<rparr>,
       issued =
         [([''docker'', ''inspect'', ''--format'', ''{{.ID}}'', ''foo''], None),
          ([''docker'', ''inspect'', ''--format'', ''"{{.State.Running}}"'', ''c''], None),
          ([''docker'', ''run'', ''--name'', ''c'', ''--env'', ''MSG=a\<newline>b'', ''-d'', ''foo''],
           None)]\<rparr>)
   = (Exit True
        [''Arguments changed for run command'', ''Executed '' @ quoted ''docker stop'',
         ''Executed '' @ quoted ''docker rm'', ''Executed '' @ quoted ''docker run''],
      Records (Some
        ''docker build --tag foo --no-cache .\<newline>docker run --name c --env MSG=a\<newline>b -d foo''),
      \<lparr>rt = \<lparr>sim_container = Some True, sim_image = Some sim_stamp\<rparr>,
       issued =
         [([''docker'', ''inspect'', ''--format'', ''{{.ID}}'', ''foo''], None),
          ([''docker'', ''inspect'', ''--format'', ''"{{.State.Running}}"'', ''c''], None),
          ([''docker'', ''run'', ''--name'', ''c'', ''--env'', ''MSG=a\<newline>b'', ''-d'', ''foo''],
           None),
          ([''docker'', ''inspect'', ''--format'', ''{{.ID}}'', ''foo''], None),
          ([''docker'', ''inspect'', ''--format'', ''"{{.State.Running}}"'', ''c''], None),
          ([''docker'', ''stop'', ''c''], None),
          ([''docker'', ''rm'', ''c''], None),
          ([''docker'', ''run'', ''--name'', ''c'', ''--env'', ''MSG=a\<newline>b'', ''-d'', ''foo''],
           None)]\<rparr>)\<close>
  by (simp add: init_defs builder_defs method_defs sim_defs)

end
